theory Spec2Isabelle
  imports Complex_Main
begin

section \<open>The API client (apiService): values and objects of the JavaScript source\<close>

text \<open>
  The values a caller of the client puts into a parameter object: \<open>null\<close>,
  \<open>undefined\<close>, booleans, numbers and strings. Numbers are only passed through by the
  functions below, never computed with.
\<close>

datatype jsval = JNull | JUndefined | JBool bool | JNum real | JStr string

text \<open>
  An object literal is its list of entries in insertion order. \<open>Object.keys\<close> lists the
  keys, \<open>obj[key]\<close> reads a property and yields \<open>undefined\<close> for a missing one.
\<close>

type_synonym jsobject = "(string \<times> jsval) list"

definition object_keys :: "jsobject \<Rightarrow> string list" where
  "object_keys obj = map fst obj"

definition js_get :: "jsobject \<Rightarrow> string \<Rightarrow> jsval" where
  "js_get obj key = (case map_of obj key of None \<Rightarrow> JUndefined | Some v \<Rightarrow> v)"

subsection \<open>unifiedAlertsAPI.dashboard.getActivity\<close>

text \<open>
  \<^verbatim>\<open>
  getActivity: async (params = {}) => {
    const defaults = {
      hours_back: 720,
      algorithm: 'dbscan',
      dbscan_eps: 0.5,
      dbscan_min_samples: 3,
      kmeans_clusters: 3,
      use_all_data: true
    };
    const queryParams = { ...defaults };
    Object.keys(params).forEach(key => {
      if (params[key] !== null && params[key] !== undefined && params[key] !== '') {
        queryParams[key] = params[key];
      }
    });
    const response = await api.get('/unified-alerts/dashboard/activity', { params: queryParams });
    return response.data;
  }
  \<close>
  The query parameters of the request are the own properties of the object
  \<open>queryParams\<close> handed to \<open>api.get\<close>: a map from names to values.
\<close>

definition defaults :: "string \<rightharpoonup> jsval" where
  "defaults =
     [''hours_back'' \<mapsto> JNum 720,
      ''algorithm'' \<mapsto> JStr ''dbscan'',
      ''dbscan_eps'' \<mapsto> JNum 0.5,
      ''dbscan_min_samples'' \<mapsto> JNum 3,
      ''kmeans_clusters'' \<mapsto> JNum 3,
      ''use_all_data'' \<mapsto> JBool True]"

text \<open>
  The assignment \<open>queryParams[key] = v\<close>, on an object created by an object literal. For
  every key but one it creates or overwrites the own property \<open>key\<close>. The key
  \<open>__proto__\<close> is the exception: every such object inherits an accessor of that name from
  \<open>Object.prototype\<close>, so the assignment calls the accessor's setter instead of creating a
  property, and the setter leaves the own properties as they are (given a value that is
  not an object it does nothing at all).
\<close>

definition assign :: "(string \<rightharpoonup> jsval) \<Rightarrow> string \<Rightarrow> jsval \<Rightarrow> (string \<rightharpoonup> jsval)" where
  "assign obj key v = (if key = ''__proto__'' then obj else obj(key \<mapsto> v))"

text \<open>The body of the \<open>forEach\<close> callback, for one key of \<open>params\<close>.\<close>

definition copy_param :: "jsobject \<Rightarrow> string \<Rightarrow> (string \<rightharpoonup> jsval) \<Rightarrow> (string \<rightharpoonup> jsval)" where
  "copy_param params key queryParams =
     (if js_get params key \<noteq> JNull \<and> js_get params key \<noteq> JUndefined
         \<and> js_get params key \<noteq> JStr ''''
      then assign queryParams key (js_get params key)
      else queryParams)"

text \<open>The argument is \<open>None\<close> when the caller passes nothing: the default \<open>{}\<close> applies.\<close>

definition getActivity :: "jsobject option \<Rightarrow> (string \<rightharpoonup> jsval)" where
  "getActivity arg =
     (let params = (case arg of None \<Rightarrow> [] | Some p \<Rightarrow> p)
      in fold (copy_param params) (object_keys params) defaults)"

subsection \<open>alertsAPI.getStats\<close>

text \<open>
  \<^verbatim>\<open>
  getStats: async () => {
    const alerts = await alertsAPI.list();
    const triggered = await alertsAPI.getTriggeredAlerts(100);

    const enabledAlerts = alerts.alerts.filter(a => a.enabled).length;
    const triggeredLast24h = triggered.triggered.filter(t => {
      const triggeredAt = new Date(t.triggered_at);
      const now = new Date();
      return (now - triggeredAt) < 24 * 60 * 60 * 1000;
    }).length;

    const bySeverity = { low: 0, medium: 0, high: 0, critical: 0 };
    alerts.alerts.forEach(a => {
      bySeverity[a.severity] = (bySeverity[a.severity] || 0) + 1;
    });

    return {
      total_alerts: alerts.total,
      enabled_alerts: enabledAlerts,
      triggered_last_24h: triggeredLast24h,
      by_severity: bySeverity,
    };
  },
  \<close>
  The two responses \<open>getStats\<close> reads. Of each listed alert it reads \<open>enabled\<close>, a
  boolean of the data model, and \<open>severity\<close>; the severity is used as a property name, so
  it is a string here. Of each triggered record it reads \<open>triggered_at\<close>, which
  \<open>new Date\<close> parses to milliseconds since the epoch, or to an invalid date (\<open>None\<close>)
  whose difference with any date is \<open>NaN\<close>, and \<open>NaN < x\<close> is false.
\<close>

record listed_alert =
  enabled :: bool
  severity :: string

record list_response =
  alerts :: "listed_alert list"
  total_field :: int

record triggered_entry =
  triggered_at :: "int option"

record triggered_response =
  triggered :: "triggered_entry list"

text \<open>
  What a property of \<open>bySeverity\<close> holds: a count, or a string once \<open>+ 1\<close> has been
  applied to a value that is not a number.
\<close>

datatype tally = Count nat | Text string

record stats =
  total_alerts :: int
  enabled_alerts :: nat
  triggered_last_24h :: nat
  by_severity :: "string \<rightharpoonup> tally"

text \<open>
  The properties that \<open>bySeverity\<close>, like every object created by an object literal,
  inherits from \<open>Object.prototype\<close>: eleven functions, and the accessor \<open>__proto__\<close>.
\<close>

definition inherited_functions :: "string list" where
  "inherited_functions =
     [''constructor'', ''hasOwnProperty'', ''isPrototypeOf'', ''propertyIsEnumerable'',
      ''toLocaleString'', ''toString'', ''valueOf'', ''__defineGetter__'',
      ''__defineSetter__'', ''__lookupGetter__'', ''__lookupSetter__'']"

definition inherited_names :: "string list" where
  "inherited_names = ''__proto__'' # inherited_functions"

text \<open>
  \<^verbatim>\<open>bySeverity[a.severity] = (bySeverity[a.severity] || 0) + 1\<close>, on the own properties
  of \<open>bySeverity\<close>.

    \<^item> An own count \<open>c\<close> becomes \<open>c + 1\<close>: a count of 0 is falsy, and \<open>0 || 0\<close> is 0 again.
    \<^item> An own string is truthy unless empty, and \<open>+ 1\<close> appends \<open>'1'\<close> to it; the empty
      string is falsy and gives \<open>0 + 1\<close>.
    \<^item> Where there is no own property the read goes to \<open>Object.prototype\<close>. For a name
      that is not inherited it yields \<open>undefined\<close>, and the count starts at \<open>0 + 1\<close>.
    \<^item> For the name of an inherited function the read yields the function, which is
      truthy; \<open>+ 1\<close> turns it into its source text followed by \<open>'1'\<close>, and the assignment
      stores that string as an own property. \<open>source_text k\<close> is the text the JavaScript
      engine gives the function named \<open>k\<close>.
    \<^item> For \<open>__proto__\<close> the read yields the prototype object and the sum is a string; the
      assignment calls the inherited setter, which ignores a string: nothing is stored.
\<close>

definition bump_severity ::
  "(string \<Rightarrow> string) \<Rightarrow> listed_alert \<Rightarrow> (string \<rightharpoonup> tally) \<Rightarrow> (string \<rightharpoonup> tally)" where
  "bump_severity source_text a bySeverity =
     (case bySeverity (severity a) of
        Some (Count c) \<Rightarrow> bySeverity(severity a \<mapsto> Count (c + 1))
      | Some (Text s) \<Rightarrow>
          bySeverity(severity a \<mapsto> (if s = [] then Count 1 else Text (s @ ''1'')))
      | None \<Rightarrow>
          if severity a = ''__proto__'' then bySeverity
          else if severity a \<in> set inherited_functions
          then bySeverity(severity a \<mapsto> Text (source_text (severity a) @ ''1''))
          else bySeverity(severity a \<mapsto> Count 1))"

definition severity_zero :: "string \<rightharpoonup> tally" where
  "severity_zero =
     [''low'' \<mapsto> Count 0, ''medium'' \<mapsto> Count 0, ''high'' \<mapsto> Count 0, ''critical'' \<mapsto> Count 0]"

text \<open>
  The filter's callback reads the clock itself (\<open>const now = new Date()\<close>) each time it
  runs: \<open>now_at i\<close> is the reading, in milliseconds, taken for the record at index \<open>i\<close>.
\<close>

definition within_24h :: "(nat \<Rightarrow> int) \<Rightarrow> nat \<times> triggered_entry \<Rightarrow> bool" where
  "within_24h now_at p =
     (case triggered_at (snd p) of
        None \<Rightarrow> False
      | Some triggeredAt \<Rightarrow> now_at (fst p) - triggeredAt < 24 * 60 * 60 * 1000)"

definition getStats ::
  "(string \<Rightarrow> string) \<Rightarrow> (nat \<Rightarrow> int) \<Rightarrow> list_response \<Rightarrow> triggered_response \<Rightarrow> stats" where
  "getStats source_text now_at alerts_resp triggered_resp =
     (let enabledAlerts = length (filter enabled (alerts alerts_resp));
          triggeredLast24h =
            length (filter (within_24h now_at) (enumerate 0 (triggered triggered_resp)));
          bySeverity = fold (bump_severity source_text) (alerts alerts_resp) severity_zero
      in \<lparr> total_alerts = total_field alerts_resp,
           enabled_alerts = enabledAlerts,
           triggered_last_24h = triggeredLast24h,
           by_severity = bySeverity \<rparr>)"

text \<open>The count a key of \<open>bySeverity\<close> holds; 0 where it holds none.\<close>

definition count_at :: "(string \<rightharpoonup> tally) \<Rightarrow> string \<Rightarrow> nat" where
  "count_at bySeverity k = (case bySeverity k of Some (Count c) \<Rightarrow> c | _ \<Rightarrow> 0)"

subsection \<open>alertsAPI.toggle and the toggles of unifiedAlertsAPI\<close>

text \<open>
  \<^verbatim>\<open>
  // Toggle alert enabled/disabled (manual implementation)
  toggle: async (alertId) => {
    const alert = await alertsAPI.get(alertId);
    const response = await api.put(`/volume-alerts/${alertId}`, { enabled: !alert.enabled });
    return response.data;
  },
  \<close>
  and, once per category of the unified API (the three copies differ in the URL only),
  \<^verbatim>\<open>
  toggle: async (id) => {
    const response = await api.patch(`/unified-alerts/data-quality/${id}/toggle`);
    return response.data;
  },
  \<close>
  An alert travels as a JSON object: a map from field names to values. The table of one
  URL prefix maps the identifiers under it to the stored alerts.
\<close>

datatype api_error = NotFoundError | ValidationError

type_synonym alert_object = "string \<rightharpoonup> jsval"

type_synonym alert_table = "nat \<rightharpoonup> alert_object"

text \<open>\<open>alert.enabled\<close>: reading a field of a response object.\<close>

definition property :: "alert_object \<Rightarrow> string \<Rightarrow> jsval" where
  "property obj key = (case obj key of None \<Rightarrow> JUndefined | Some v \<Rightarrow> v)"

text \<open>
  The operator \<open>!\<close>: true on the falsy values \<open>null\<close>, \<open>undefined\<close>, \<open>false\<close>, \<open>0\<close> and
  \<open>''\<close>, false on every other value.
\<close>

definition js_not :: "jsval \<Rightarrow> bool" where
  "js_not v =
     (case v of
        JNull \<Rightarrow> True
      | JUndefined \<Rightarrow> True
      | JBool b \<Rightarrow> \<not> b
      | JNum x \<Rightarrow> x = 0
      | JStr s \<Rightarrow> s = [])"

text \<open>
  Modelled from the spec: the handlers behind the client's requests belong to the backend
  (email-intelligence-api), whose code is not among the sources. \<open>get(id)\<close> returns the
  stored definition and fails with \<open>NotFoundError\<close> on an unknown identifier.
\<close>

definition backend_get :: "alert_table \<Rightarrow> nat \<Rightarrow> api_error + alert_object" where
  "backend_get tbl alertId =
     (case tbl alertId of None \<Rightarrow> Inl NotFoundError | Some a \<Rightarrow> Inr a)"

text \<open>
  Modelled from the spec: \<open>update(id, partial)\<close> of the absent backend. It fails with
  \<open>NotFoundError\<close> on an unknown identifier and with \<open>ValidationError\<close> on a body the
  backend's validation refuses; otherwise the fields the body names are stored over the
  definition's and the updated definition is returned. The validation itself is the
  parameter \<open>accepts\<close>.
\<close>

definition backend_update ::
  "(jsobject \<Rightarrow> bool) \<Rightarrow> alert_table \<Rightarrow> nat \<Rightarrow> jsobject
     \<Rightarrow> (api_error + alert_object) \<times> alert_table" where
  "backend_update accepts tbl alertId body =
     (case tbl alertId of
        None \<Rightarrow> (Inl NotFoundError, tbl)
      | Some a \<Rightarrow>
          if \<not> accepts body then (Inl ValidationError, tbl)
          else (Inr (a ++ map_of body), tbl(alertId \<mapsto> a ++ map_of body)))"

text \<open>
  Modelled from the spec: the \<open>enabled\<close> flag of a stored definition, as the absent
  backend reads it.
\<close>

definition enabled_flag :: "alert_object \<Rightarrow> bool" where
  "enabled_flag a \<longleftrightarrow> a ''enabled'' = Some (JBool True)"

text \<open>
  Modelled from the spec: \<open>toggle(id)\<close> of the absent backend, in the spec's words:
  ``\<open>toggle\<close> flips \<open>enabled\<close> only; no other field changes'', and an unknown identifier
  is a \<open>NotFoundError\<close>.
\<close>

definition backend_toggle ::
  "alert_table \<Rightarrow> nat \<Rightarrow> (api_error + alert_object) \<times> alert_table" where
  "backend_toggle tbl alertId =
     (case tbl alertId of
        None \<Rightarrow> (Inl NotFoundError, tbl)
      | Some a \<Rightarrow>
          (Inr (a(''enabled'' \<mapsto> JBool (\<not> enabled_flag a))),
           tbl(alertId \<mapsto> a(''enabled'' \<mapsto> JBool (\<not> enabled_flag a)))))"

text \<open>
  The client's two toggles, from the source. A failed request rejects the promise: the
  error is returned and no further request is made. The three PATCH toggles of
  \<open>unifiedAlertsAPI\<close> send no body; \<open>tbl\<close> is the table of the category in the URL.
\<close>

definition alertsAPI_toggle ::
  "(jsobject \<Rightarrow> bool) \<Rightarrow> alert_table \<Rightarrow> nat
     \<Rightarrow> (api_error + alert_object) \<times> alert_table" where
  "alertsAPI_toggle accepts tbl alertId =
     (case backend_get tbl alertId of
        Inl e \<Rightarrow> (Inl e, tbl)
      | Inr alert \<Rightarrow>
          backend_update accepts tbl alertId
            [(''enabled'', JBool (js_not (property alert ''enabled'')))])"

definition unifiedAlertsAPI_toggle ::
  "alert_table \<Rightarrow> nat \<Rightarrow> (api_error + alert_object) \<times> alert_table" where
  "unifiedAlertsAPI_toggle tbl alertId = backend_toggle tbl alertId"

section \<open>Properties of getActivity\<close>

lemma fold_copy_param:
  "fold (copy_param params) keys q k =
     (if k \<in> set keys \<and> js_get params k \<noteq> JNull \<and> js_get params k \<noteq> JUndefined
          \<and> js_get params k \<noteq> JStr '''' \<and> k \<noteq> ''__proto__''
      then Some (js_get params k) else q k)"
  by (induction keys arbitrary: q) (auto simp: copy_param_def assign_def)

lemma own_entry_in_keys: "map_of obj k = Some v \<Longrightarrow> k \<in> set (object_keys obj)"
proof -
  assume "map_of obj k = Some v"
  then have "(k, v) \<in> set obj"
    by (rule map_of_SomeD)
  then show ?thesis
    by (force simp: object_keys_def)
qed

text \<open>
  C9 (as amended). With no argument, the query parameters of the request that
  \<open>getActivity\<close> emits are the six defaults: \<open>hours_back\<close> 720, \<open>algorithm\<close> \<open>'dbscan'\<close>,
  \<open>dbscan_eps\<close> 0.5, \<open>dbscan_min_samples\<close> 3, \<open>kmeans_clusters\<close> 3 and \<open>use_all_data\<close>
  true. For every params object they are these defaults overridden by exactly those
  entries of the caller whose value is neither \<open>null\<close>, nor \<open>undefined\<close>, nor the empty
  string, and whose key is not \<open>__proto__\<close>: under the key \<open>k\<close> the request carries
  the caller's value when the caller has such an entry for \<open>k\<close>, and otherwise the
  default of \<open>k\<close>, if there is one, and nothing if there is none.
\<close>

theorem getActivity_query_params:
  "getActivity None =
     [''hours_back'' \<mapsto> JNum 720, ''algorithm'' \<mapsto> JStr ''dbscan'', ''dbscan_eps'' \<mapsto> JNum 0.5,
      ''dbscan_min_samples'' \<mapsto> JNum 3, ''kmeans_clusters'' \<mapsto> JNum 3,
      ''use_all_data'' \<mapsto> JBool True]
   \<and> getActivity (Some params) k =
     (case map_of params k of
        None \<Rightarrow>
          [''hours_back'' \<mapsto> JNum 720, ''algorithm'' \<mapsto> JStr ''dbscan'',
           ''dbscan_eps'' \<mapsto> JNum 0.5, ''dbscan_min_samples'' \<mapsto> JNum 3,
           ''kmeans_clusters'' \<mapsto> JNum 3, ''use_all_data'' \<mapsto> JBool True] k
      | Some v \<Rightarrow>
          if v = JNull \<or> v = JUndefined \<or> v = JStr '''' \<or> k = ''__proto__''
          then [''hours_back'' \<mapsto> JNum 720, ''algorithm'' \<mapsto> JStr ''dbscan'',
                ''dbscan_eps'' \<mapsto> JNum 0.5, ''dbscan_min_samples'' \<mapsto> JNum 3,
                ''kmeans_clusters'' \<mapsto> JNum 3, ''use_all_data'' \<mapsto> JBool True] k
          else Some v)"
proof (rule conjI)
  show "getActivity None =
     [''hours_back'' \<mapsto> JNum 720, ''algorithm'' \<mapsto> JStr ''dbscan'', ''dbscan_eps'' \<mapsto> JNum 0.5,
      ''dbscan_min_samples'' \<mapsto> JNum 3, ''kmeans_clusters'' \<mapsto> JNum 3,
      ''use_all_data'' \<mapsto> JBool True]"
    by (simp add: getActivity_def object_keys_def defaults_def)
next
  have run: "getActivity (Some params) k =
      (if k \<in> set (object_keys params) \<and> js_get params k \<noteq> JNull
           \<and> js_get params k \<noteq> JUndefined \<and> js_get params k \<noteq> JStr ''''
           \<and> k \<noteq> ''__proto__''
       then Some (js_get params k) else defaults k)"
    by (simp add: getActivity_def fold_copy_param)
  show "getActivity (Some params) k =
     (case map_of params k of
        None \<Rightarrow>
          [''hours_back'' \<mapsto> JNum 720, ''algorithm'' \<mapsto> JStr ''dbscan'',
           ''dbscan_eps'' \<mapsto> JNum 0.5, ''dbscan_min_samples'' \<mapsto> JNum 3,
           ''kmeans_clusters'' \<mapsto> JNum 3, ''use_all_data'' \<mapsto> JBool True] k
      | Some v \<Rightarrow>
          if v = JNull \<or> v = JUndefined \<or> v = JStr '''' \<or> k = ''__proto__''
          then [''hours_back'' \<mapsto> JNum 720, ''algorithm'' \<mapsto> JStr ''dbscan'',
                ''dbscan_eps'' \<mapsto> JNum 0.5, ''dbscan_min_samples'' \<mapsto> JNum 3,
                ''kmeans_clusters'' \<mapsto> JNum 3, ''use_all_data'' \<mapsto> JBool True] k
          else Some v)"
  proof (cases "map_of params k")
    case None
    then have "js_get params k = JUndefined"
      by (simp add: js_get_def)
    with None show ?thesis
      unfolding run by (simp add: defaults_def)
  next
    case (Some v)
    then have "js_get params k = v" and "k \<in> set (object_keys params)"
      by (simp_all add: js_get_def own_entry_in_keys)
    with Some show ?thesis
      unfolding run by (simp add: defaults_def)
  qed
qed

theorem getActivity_query_params_witness:
  "getActivity (Some [(''algorithm'', JStr ''kmeans''), (''entity_value'', JStr ''''),
       (''dbscan_eps'', JNull), (''entity_type'', JStr ''PERSON''),
       (''__proto__'', JStr ''x'')])
   = [''hours_back'' \<mapsto> JNum 720, ''algorithm'' \<mapsto> JStr ''kmeans'', ''dbscan_eps'' \<mapsto> JNum 0.5,
      ''dbscan_min_samples'' \<mapsto> JNum 3, ''kmeans_clusters'' \<mapsto> JNum 3,
      ''use_all_data'' \<mapsto> JBool True, ''entity_type'' \<mapsto> JStr ''PERSON'']"
proof (rule ext)
  fix k
  let ?p = "[(''algorithm'', JStr ''kmeans''), (''entity_value'', JStr ''''),
       (''dbscan_eps'', JNull), (''entity_type'', JStr ''PERSON''),
       (''__proto__'', JStr ''x'')]"
  from getActivity_query_params[of ?p k, THEN conjunct2]
  show "getActivity (Some ?p) k
   = [''hours_back'' \<mapsto> JNum 720, ''algorithm'' \<mapsto> JStr ''kmeans'', ''dbscan_eps'' \<mapsto> JNum 0.5,
      ''dbscan_min_samples'' \<mapsto> JNum 3, ''kmeans_clusters'' \<mapsto> JNum 3,
      ''use_all_data'' \<mapsto> JBool True, ''entity_type'' \<mapsto> JStr ''PERSON''] k"
    by simp
qed

text \<open>
  The claim without the exception does not hold: the value \<open>'PERSON'\<close> is neither
  \<open>null\<close>, nor \<open>undefined\<close>, nor the empty string, and the caller's entry
  \<open>__proto__: 'PERSON'\<close> does not reach the request.
\<close>

theorem getActivity_proto_entry_dropped:
  "getActivity (Some [(''__proto__'', JStr ''PERSON'')]) ''__proto__'' = None
   \<and> getActivity (Some [(''__proto__'', JStr ''PERSON'')]) =
     [''hours_back'' \<mapsto> JNum 720, ''algorithm'' \<mapsto> JStr ''dbscan'', ''dbscan_eps'' \<mapsto> JNum 0.5,
      ''dbscan_min_samples'' \<mapsto> JNum 3, ''kmeans_clusters'' \<mapsto> JNum 3,
      ''use_all_data'' \<mapsto> JBool True]
   \<and> JStr ''PERSON'' \<noteq> JNull \<and> JStr ''PERSON'' \<noteq> JUndefined \<and> JStr ''PERSON'' \<noteq> JStr ''''"
  by (simp add: getActivity_def object_keys_def copy_param_def js_get_def assign_def defaults_def)

section \<open>Properties of getStats\<close>

lemma fold_bump_other:
  "k \<notin> severity ` set as \<Longrightarrow> fold (bump_severity src) as m k = m k"
  by (induction as arbitrary: m)
    (auto simp: bump_severity_def split: option.splits tally.splits)

lemma fold_bump_count:
  assumes "k \<notin> set inherited_names" and "m k = None \<or> (\<exists>c. m k = Some (Count c))"
  shows "fold (bump_severity src) as m k =
     (if m k = None \<and> k \<notin> severity ` set as then None
      else Some (Count (count_at m k + length (filter (\<lambda>a. severity a = k) as))))"
  using assms(2)
proof (induction as arbitrary: m)
  case Nil
  then show ?case by (auto simp: count_at_def)
next
  case (Cons a as)
  let ?m = "bump_severity src a m"
  show ?case
  proof (cases "severity a = k")
    case True
    have step: "?m k = Some (Count (count_at m k + 1))"
      using Cons.prems True assms(1)
      by (auto simp: bump_severity_def count_at_def inherited_names_def)
    then have "?m k = None \<or> (\<exists>c. ?m k = Some (Count c))"
      by simp
    from Cons.IH[of "bump_severity src a m", OF this] step True show ?thesis
      by (simp add: count_at_def)
  next
    case False
    have step: "?m k = m k"
      using False by (auto simp: bump_severity_def split: option.splits tally.splits)
    then have "?m k = None \<or> (\<exists>c. ?m k = Some (Count c))"
      using Cons.prems by simp
    from Cons.IH[of "bump_severity src a m", OF this] step False show ?thesis
      by (simp add: count_at_def)
  qed
qed

lemma fold_bump_proto:
  "m ''__proto__'' = None \<Longrightarrow> fold (bump_severity src) as m ''__proto__'' = None"
proof (induction as arbitrary: m)
  case Nil
  then show ?case by simp
next
  case (Cons a as)
  have "bump_severity src a m ''__proto__'' = None"
    using Cons.prems by (auto simp: bump_severity_def split: option.splits tally.splits)
  then show ?case
    using Cons.IH by simp
qed

lemma fold_bump_text:
  assumes "k \<in> set inherited_functions"
    and "(j = 0 \<and> m k = None) \<or> (0 < j \<and> m k = Some (Text (src k @ replicate j (CHR ''1''))))"
  shows "fold (bump_severity src) as m k =
     (if j + length (filter (\<lambda>a. severity a = k) as) = 0 then None
      else Some (Text (src k @ replicate (j + length (filter (\<lambda>a. severity a = k) as)) (CHR ''1''))))"
  using assms(2)
proof (induction as arbitrary: m j)
  case Nil
  then show ?case by auto
next
  case (Cons a as)
  let ?m = "bump_severity src a m"
  show ?case
  proof (cases "severity a = k")
    case True
    have proto: "k \<noteq> ''__proto__''"
      using assms(1) by (auto simp: inherited_functions_def)
    have "?m k = Some (Text (src k @ replicate (Suc j) (CHR ''1'')))"
      using Cons.prems True assms(1) proto
      by (auto simp: bump_severity_def replicate_append_same)
    then have "(Suc j = 0 \<and> ?m k = None)
        \<or> (0 < Suc j \<and> ?m k = Some (Text (src k @ replicate (Suc j) (CHR ''1''))))"
      by simp
    from Cons.IH[of "Suc j" "bump_severity src a m", OF this] True show ?thesis
      by simp
  next
    case False
    have "?m k = m k"
      using False by (auto simp: bump_severity_def split: option.splits tally.splits)
    then have "(j = 0 \<and> ?m k = None)
        \<or> (0 < j \<and> ?m k = Some (Text (src k @ replicate j (CHR ''1''))))"
      using Cons.prems by simp
    from Cons.IH[of j "bump_severity src a m", OF this] False show ?thesis
      by simp
  qed
qed

lemma sum_count_severity:
  "finite S \<Longrightarrow> severity ` set as \<subseteq> S \<Longrightarrow>
   (\<Sum>k \<in> S. length (filter (\<lambda>a. severity a = k) as)) = length as"
proof (induction as)
  case Nil
  then show ?case by simp
next
  case (Cons a as)
  have "(\<Sum>k \<in> S. length (filter (\<lambda>a. severity a = k) (a # as)))
      = (\<Sum>k \<in> S. (if k = severity a then 1 else 0)
                    + length (filter (\<lambda>a. severity a = k) as))"
    by (intro sum.cong) auto
  also have "\<dots> = (\<Sum>k \<in> S. if k = severity a then 1 else 0)
      + (\<Sum>k \<in> S. length (filter (\<lambda>a. severity a = k) as))"
    by (simp add: sum.distrib)
  also have "(\<Sum>k \<in> S. if k = severity a then 1 else 0) = (1::nat)"
    using Cons.prems by simp
  finally show ?case
    using Cons by simp
qed

lemma length_filter_enumerate:
  "length (filter P (enumerate 0 xs)) = card {i. i < length xs \<and> P (i, xs ! i)}"
proof -
  have "{i. i < length (enumerate 0 xs) \<and> P (enumerate 0 xs ! i)}
          = {i. i < length xs \<and> P (i, xs ! i)}"
    by (auto simp: nth_enumerate_eq)
  then show ?thesis
    by (simp add: length_filter_conv_card)
qed

lemma four_not_inherited:
  "k \<in> {''low'', ''medium'', ''high'', ''critical''} \<Longrightarrow> k \<notin> set inherited_names"
  by (auto simp: inherited_names_def inherited_functions_def)

lemma by_severity_counted:
  assumes "k \<notin> set inherited_names"
  shows "by_severity (getStats src now_at ar tr) k =
     (if k \<in> {''low'', ''medium'', ''high'', ''critical''} \<or> k \<in> severity ` set (alerts ar)
      then Some (Count (length (filter (\<lambda>a. severity a = k) (alerts ar)))) else None)"
proof -
  have start: "severity_zero k = None \<or> (\<exists>c. severity_zero k = Some (Count c))"
    by (simp add: severity_zero_def)
  have "by_severity (getStats src now_at ar tr) k
      = fold (bump_severity src) (alerts ar) severity_zero k"
    by (simp add: getStats_def)
  also have "\<dots> = (if severity_zero k = None \<and> k \<notin> severity ` set (alerts ar) then None
      else Some (Count (count_at severity_zero k
             + length (filter (\<lambda>a. severity a = k) (alerts ar)))))"
    by (rule fold_bump_count[where m = severity_zero and k = k and src = src
          and as = "alerts ar", OF assms start])
  finally show ?thesis
    by (auto simp: severity_zero_def count_at_def)
qed

text \<open>
  A severity that names an inherited property is not counted: nothing is ever stored
  under \<open>__proto__\<close>, and under the name of an inherited function \<open>by_severity\<close> holds the
  function's text followed by one \<open>'1'\<close> for each listed alert of that severity.
\<close>

lemma by_severity_proto:
  "by_severity (getStats src now_at ar tr) ''__proto__'' = None"
  by (simp add: getStats_def fold_bump_proto severity_zero_def)

lemma by_severity_inherited_function:
  assumes k: "k \<in> set inherited_functions"
  shows "by_severity (getStats src now_at ar tr) k =
       (if length (filter (\<lambda>a. severity a = k) (alerts ar)) = 0 then None
        else Some (Text (src k
               @ replicate (length (filter (\<lambda>a. severity a = k) (alerts ar))) (CHR ''1''))))"
proof -
  from k have "severity_zero k = None"
    by (auto simp: severity_zero_def inherited_functions_def)
  then have "(0 = (0::nat) \<and> severity_zero k = None)
      \<or> (0 < (0::nat) \<and> severity_zero k = Some (Text (src k @ replicate 0 (CHR ''1''))))"
    by simp
  from fold_bump_text[where m = severity_zero and k = k and j = 0 and src = src
      and as = "alerts ar", OF k this]
  show ?thesis
    by (simp add: getStats_def)
qed

lemma count_four:
  "length (filter (\<lambda>a. severity a = ''low'') as)
     + length (filter (\<lambda>a. severity a = ''medium'') as)
     + length (filter (\<lambda>a. severity a = ''high'') as)
     + length (filter (\<lambda>a. severity a = ''critical'') as)
   = length (filter (\<lambda>a. severity a \<in> {''low'', ''medium'', ''high'', ''critical''}) as)"
  by (induction as) auto

text \<open>
  C10 (as amended). For every response pair from \<open>list()\<close> and
  \<open>getTriggeredAlerts(100)\<close>, \<open>getStats\<close> returns: \<open>total_alerts\<close> equal to the list
  response's \<open>total\<close> field; \<open>enabled_alerts\<close> equal to the number of listed alerts with
  \<open>enabled = true\<close>; \<open>by_severity\<close> holding, for each of low, medium, high and critical
  and for every other severity that occurs among the listed alerts (the names of the
  properties every object inherits apart), the number of listed alerts of that severity.
  The counts over low, medium, high and critical sum to the number of listed alerts that
  have one of these four severities; they sum to the number of all listed alerts, and
  \<open>by_severity\<close> has no other key, when every listed alert has one of the four. The
  counts under all keys of \<open>by_severity\<close> sum to the number of listed alerts when no
  listed severity is the name of an inherited property. And \<open>triggered_last_24h\<close> is the
  number of returned triggered records whose \<open>triggered_at\<close> is strictly less than 24
  hours before the clock reading taken for that record (a record dated after the reading
  counts; one whose \<open>triggered_at\<close> is no date does not).
\<close>

theorem getStats_summary:
  "total_alerts (getStats src now_at ar tr) = total_field ar
   \<and> enabled_alerts (getStats src now_at ar tr)
        = length (filter (\<lambda>a. enabled a = True) (alerts ar))
   \<and> (\<forall>k. k \<notin> set inherited_names \<longrightarrow>
         by_severity (getStats src now_at ar tr) k =
           (if k \<in> {''low'', ''medium'', ''high'', ''critical''} \<or> k \<in> severity ` set (alerts ar)
            then Some (Count (length (filter (\<lambda>a. severity a = k) (alerts ar)))) else None))
   \<and> count_at (by_severity (getStats src now_at ar tr)) ''low''
       + count_at (by_severity (getStats src now_at ar tr)) ''medium''
       + count_at (by_severity (getStats src now_at ar tr)) ''high''
       + count_at (by_severity (getStats src now_at ar tr)) ''critical''
       = length (filter (\<lambda>a. severity a \<in> {''low'', ''medium'', ''high'', ''critical''})
                   (alerts ar))
   \<and> ((\<forall>a \<in> set (alerts ar). severity a \<notin> set inherited_names) \<longrightarrow>
         (\<Sum>k \<in> dom (by_severity (getStats src now_at ar tr)).
            count_at (by_severity (getStats src now_at ar tr)) k) = length (alerts ar))
   \<and> ((\<forall>a \<in> set (alerts ar). severity a \<in> {''low'', ''medium'', ''high'', ''critical''}) \<longrightarrow>
         by_severity (getStats src now_at ar tr) =
           [''low'' \<mapsto> Count (length (filter (\<lambda>a. severity a = ''low'') (alerts ar))),
            ''medium'' \<mapsto> Count (length (filter (\<lambda>a. severity a = ''medium'') (alerts ar))),
            ''high'' \<mapsto> Count (length (filter (\<lambda>a. severity a = ''high'') (alerts ar))),
            ''critical'' \<mapsto> Count (length (filter (\<lambda>a. severity a = ''critical'') (alerts ar)))]
       \<and> count_at (by_severity (getStats src now_at ar tr)) ''low''
           + count_at (by_severity (getStats src now_at ar tr)) ''medium''
           + count_at (by_severity (getStats src now_at ar tr)) ''high''
           + count_at (by_severity (getStats src now_at ar tr)) ''critical''
           = length (alerts ar))
   \<and> triggered_last_24h (getStats src now_at ar tr)
        = card {i. i < length (triggered tr) \<and>
              (\<exists>t. triggered_at (triggered tr ! i) = Some t
                   \<and> now_at i - t < 24 * 60 * 60 * 1000)}"
proof -
  let ?S = "getStats src now_at ar tr"
  let ?four = "{''low'', ''medium'', ''high'', ''critical''}"
  let ?n = "\<lambda>k. length (filter (\<lambda>a. severity a = k) (alerts ar))"
  let ?sum = "count_at (by_severity ?S) ''low'' + count_at (by_severity ?S) ''medium''
       + count_at (by_severity ?S) ''high'' + count_at (by_severity ?S) ''critical''"
  have basic: "total_alerts ?S = total_field ar"
    "enabled_alerts ?S = length (filter (\<lambda>a. enabled a = True) (alerts ar))"
    by (simp_all add: getStats_def)
  have counted: "\<forall>k. k \<notin> set inherited_names \<longrightarrow>
      by_severity ?S k =
        (if k \<in> ?four \<or> k \<in> severity ` set (alerts ar) then Some (Count (?n k)) else None)"
    using by_severity_counted by blast
  have at_four: "count_at (by_severity ?S) k = ?n k" if "k \<in> ?four" for k
  proof -
    have "by_severity ?S k = Some (Count (?n k))"
      using by_severity_counted[OF four_not_inherited[OF that], of src now_at ar tr] that
      by auto
    then show ?thesis
      by (simp add: count_at_def)
  qed
  have sum_four: "?sum = length (filter (\<lambda>a. severity a \<in> ?four) (alerts ar))"
    by (simp add: at_four count_four)
  have total: "(\<Sum>k \<in> dom (by_severity ?S). count_at (by_severity ?S) k) = length (alerts ar)"
    if clean: "\<forall>a \<in> set (alerts ar). severity a \<notin> set inherited_names"
  proof -
    have entry: "by_severity ?S k =
        (if k \<in> ?four \<or> k \<in> severity ` set (alerts ar) then Some (Count (?n k)) else None)" for k
    proof (cases "k \<in> set inherited_names")
      case False
      then show ?thesis by (rule by_severity_counted)
    next
      case True
      then have absent: "k \<notin> severity ` set (alerts ar)" and "k \<notin> ?four"
        using clean four_not_inherited by auto
      then have "by_severity ?S k = severity_zero k"
        by (simp add: getStats_def fold_bump_other)
      with absent \<open>k \<notin> ?four\<close> show ?thesis
        by (simp add: severity_zero_def)
    qed
    have dom: "dom (by_severity ?S) = ?four \<union> severity ` set (alerts ar)"
      by (auto simp: entry dom_def split: if_splits)
    have "(\<Sum>k \<in> dom (by_severity ?S). count_at (by_severity ?S) k)
        = (\<Sum>k \<in> ?four \<union> severity ` set (alerts ar). ?n k)"
      unfolding dom by (intro sum.cong) (auto simp: entry count_at_def)
    also have "\<dots> = length (alerts ar)"
      by (rule sum_count_severity) auto
    finally show ?thesis .
  qed
  have four: "by_severity ?S =
           [''low'' \<mapsto> Count (?n ''low''), ''medium'' \<mapsto> Count (?n ''medium''),
            ''high'' \<mapsto> Count (?n ''high''), ''critical'' \<mapsto> Count (?n ''critical'')]
       \<and> ?sum = length (alerts ar)"
    if all: "\<forall>a \<in> set (alerts ar). severity a \<in> ?four"
  proof
    have sub: "severity ` set (alerts ar) \<subseteq> ?four"
      using all by blast
    have entry: "by_severity ?S k = (if k \<in> ?four then Some (Count (?n k)) else None)" for k
    proof (cases "k \<in> ?four")
      case True
      then show ?thesis
        using by_severity_counted[OF four_not_inherited[OF True], of src now_at ar tr] by simp
    next
      case False
      then have absent: "k \<notin> severity ` set (alerts ar)"
        using sub by blast
      then have "by_severity ?S k = severity_zero k"
        by (simp add: getStats_def fold_bump_other)
      with False show ?thesis
        by (simp add: severity_zero_def)
    qed
    show "by_severity ?S =
           [''low'' \<mapsto> Count (?n ''low''), ''medium'' \<mapsto> Count (?n ''medium''),
            ''high'' \<mapsto> Count (?n ''high''), ''critical'' \<mapsto> Count (?n ''critical'')]"
      by (rule ext) (simp add: entry)
    have "filter (\<lambda>a. severity a \<in> ?four) (alerts ar) = alerts ar"
      using all by (simp only: filter_id_conv)
    with sum_four show "?sum = length (alerts ar)"
      by simp
  qed
  have trig: "triggered_last_24h ?S = card {i. i < length (triggered tr) \<and>
      (\<exists>t. triggered_at (triggered tr ! i) = Some t \<and> now_at i - t < 24 * 60 * 60 * 1000)}"
  proof -
    have "\<And>i. within_24h now_at (i, triggered tr ! i) \<longleftrightarrow>
        (\<exists>t. triggered_at (triggered tr ! i) = Some t \<and> now_at i - t < 24 * 60 * 60 * 1000)"
      by (simp add: within_24h_def split: option.splits)
    then show ?thesis
      by (simp add: getStats_def length_filter_enumerate)
  qed
  show ?thesis
    apply (intro conjI impI)
    using basic counted sum_four total four trig by simp_all
qed

theorem getStats_summary_witness:
  "by_severity (getStats (\<lambda>k. ''function'') (\<lambda>i. 100000000)
       \<lparr> alerts = [\<lparr> enabled = True, severity = ''high'' \<rparr>,
                   \<lparr> enabled = False, severity = ''low'' \<rparr>,
                   \<lparr> enabled = True, severity = ''high'' \<rparr>], total_field = 7 \<rparr>
       \<lparr> triggered = [\<lparr> triggered_at = Some 13600000 \<rparr>, \<lparr> triggered_at = None \<rparr>,
                      \<lparr> triggered_at = Some 13600001 \<rparr>] \<rparr>)
     = [''low'' \<mapsto> Count 1, ''medium'' \<mapsto> Count 0, ''high'' \<mapsto> Count 2, ''critical'' \<mapsto> Count 0]
   \<and> total_alerts (getStats (\<lambda>k. ''function'') (\<lambda>i. 100000000)
       \<lparr> alerts = [\<lparr> enabled = True, severity = ''high'' \<rparr>,
                   \<lparr> enabled = False, severity = ''low'' \<rparr>,
                   \<lparr> enabled = True, severity = ''high'' \<rparr>], total_field = 7 \<rparr>
       \<lparr> triggered = [\<lparr> triggered_at = Some 13600000 \<rparr>, \<lparr> triggered_at = None \<rparr>,
                      \<lparr> triggered_at = Some 13600001 \<rparr>] \<rparr>) = 7
   \<and> enabled_alerts (getStats (\<lambda>k. ''function'') (\<lambda>i. 100000000)
       \<lparr> alerts = [\<lparr> enabled = True, severity = ''high'' \<rparr>,
                   \<lparr> enabled = False, severity = ''low'' \<rparr>,
                   \<lparr> enabled = True, severity = ''high'' \<rparr>], total_field = 7 \<rparr>
       \<lparr> triggered = [\<lparr> triggered_at = Some 13600000 \<rparr>, \<lparr> triggered_at = None \<rparr>,
                      \<lparr> triggered_at = Some 13600001 \<rparr>] \<rparr>) = 2
   \<and> triggered_last_24h (getStats (\<lambda>k. ''function'') (\<lambda>i. 100000000)
       \<lparr> alerts = [\<lparr> enabled = True, severity = ''high'' \<rparr>,
                   \<lparr> enabled = False, severity = ''low'' \<rparr>,
                   \<lparr> enabled = True, severity = ''high'' \<rparr>], total_field = 7 \<rparr>
       \<lparr> triggered = [\<lparr> triggered_at = Some 13600000 \<rparr>, \<lparr> triggered_at = None \<rparr>,
                      \<lparr> triggered_at = Some 13600001 \<rparr>] \<rparr>) = 1
   \<and> by_severity (getStats (\<lambda>k. ''function'') (\<lambda>i. 100000000)
       \<lparr> alerts = [\<lparr> enabled = True, severity = ''info'' \<rparr>,
                   \<lparr> enabled = True, severity = ''high'' \<rparr>], total_field = 2 \<rparr>
       \<lparr> triggered = [] \<rparr>) ''info'' = Some (Count 1)
   \<and> (\<Sum>k \<in> dom (by_severity (getStats (\<lambda>k. ''function'') (\<lambda>i. 100000000)
       \<lparr> alerts = [\<lparr> enabled = True, severity = ''info'' \<rparr>,
                   \<lparr> enabled = True, severity = ''high'' \<rparr>], total_field = 2 \<rparr>
       \<lparr> triggered = [] \<rparr>)).
         count_at (by_severity (getStats (\<lambda>k. ''function'') (\<lambda>i. 100000000)
       \<lparr> alerts = [\<lparr> enabled = True, severity = ''info'' \<rparr>,
                   \<lparr> enabled = True, severity = ''high'' \<rparr>], total_field = 2 \<rparr>
       \<lparr> triggered = [] \<rparr>)) k) = 2"
proof -
  let ?ar = "\<lparr> alerts = [\<lparr> enabled = True, severity = ''high'' \<rparr>,
                   \<lparr> enabled = False, severity = ''low'' \<rparr>,
                   \<lparr> enabled = True, severity = ''high'' \<rparr>], total_field = 7 \<rparr>"
  let ?tr = "\<lparr> triggered = [\<lparr> triggered_at = Some 13600000 \<rparr>, \<lparr> triggered_at = None \<rparr>,
                      \<lparr> triggered_at = Some 13600001 \<rparr>] \<rparr>"
  let ?S = "getStats (\<lambda>k. ''function'') (\<lambda>i. 100000000) ?ar ?tr"
  let ?ar2 = "\<lparr> alerts = [\<lparr> enabled = True, severity = ''info'' \<rparr>,
                   \<lparr> enabled = True, severity = ''high'' \<rparr>], total_field = 2 \<rparr>"
  let ?tr2 = "\<lparr> triggered = [] \<rparr>"
  let ?S2 = "getStats (\<lambda>k. ''function'') (\<lambda>i. 100000000) ?ar2 ?tr2"
  note all = getStats_summary[of "\<lambda>k. ''function''" "\<lambda>i. 100000000" ?ar ?tr]
  note all2 = getStats_summary[of "\<lambda>k. ''function''" "\<lambda>i. 100000000" ?ar2 ?tr2]
  have four: "\<forall>a \<in> set (alerts ?ar). severity a \<in> {''low'', ''medium'', ''high'', ''critical''}"
    by simp
  have info: "''info'' \<notin> set inherited_names"
    by (simp add: inherited_names_def inherited_functions_def)
  have clean: "\<forall>a \<in> set (alerts ?ar2). severity a \<notin> set inherited_names"
    by (simp add: inherited_names_def inherited_functions_def)
  have "total_alerts ?S = 7"
    using all[THEN conjunct1] by simp
  moreover have "enabled_alerts ?S = 2"
    using all[THEN conjunct2, THEN conjunct1] by simp
  moreover have "by_severity ?S
      = [''low'' \<mapsto> Count 1, ''medium'' \<mapsto> Count 0, ''high'' \<mapsto> Count 2, ''critical'' \<mapsto> Count 0]"
    using all[THEN conjunct2, THEN conjunct2, THEN conjunct2, THEN conjunct2, THEN conjunct2,
        THEN conjunct1, THEN mp, OF four, THEN conjunct1]
    by (simp add: numeral_2_eq_2)
  moreover have "triggered_last_24h ?S = 1"
  proof -
    have "{i. i < length (triggered ?tr) \<and>
              (\<exists>t. triggered_at (triggered ?tr ! i) = Some t
                   \<and> (100000000::int) - t < 24 * 60 * 60 * 1000)} = {2}"
      by (auto simp: less_Suc_eq numeral_3_eq_3)
    with all[THEN conjunct2, THEN conjunct2, THEN conjunct2, THEN conjunct2, THEN conjunct2,
        THEN conjunct2]
    show ?thesis
      by simp
  qed
  moreover have "by_severity ?S2 ''info'' = Some (Count 1)"
    using all2[THEN conjunct2, THEN conjunct2, THEN conjunct1, THEN spec, of "''info''",
        THEN mp, OF info]
    by simp
  moreover have "(\<Sum>k \<in> dom (by_severity ?S2). count_at (by_severity ?S2) k) = 2"
    using all2[THEN conjunct2, THEN conjunct2, THEN conjunct2, THEN conjunct2, THEN conjunct1,
        THEN mp, OF clean]
    by simp
  ultimately show ?thesis
    by blast
qed

text \<open>
  The claim as it stands, that the counts over low, medium, high and critical sum to the
  number of listed alerts, does not hold: one listed alert of severity \<open>info\<close> is
  counted under the key \<open>info\<close>, and the four counts sum to 0.
\<close>

theorem getStats_other_severity:
  "count_at (by_severity (getStats (\<lambda>k. ''function'') (\<lambda>i. 100000000)
       \<lparr> alerts = [\<lparr> enabled = True, severity = ''info'' \<rparr>], total_field = 1 \<rparr>
       \<lparr> triggered = [] \<rparr>)) ''low''
   + count_at (by_severity (getStats (\<lambda>k. ''function'') (\<lambda>i. 100000000)
       \<lparr> alerts = [\<lparr> enabled = True, severity = ''info'' \<rparr>], total_field = 1 \<rparr>
       \<lparr> triggered = [] \<rparr>)) ''medium''
   + count_at (by_severity (getStats (\<lambda>k. ''function'') (\<lambda>i. 100000000)
       \<lparr> alerts = [\<lparr> enabled = True, severity = ''info'' \<rparr>], total_field = 1 \<rparr>
       \<lparr> triggered = [] \<rparr>)) ''high''
   + count_at (by_severity (getStats (\<lambda>k. ''function'') (\<lambda>i. 100000000)
       \<lparr> alerts = [\<lparr> enabled = True, severity = ''info'' \<rparr>], total_field = 1 \<rparr>
       \<lparr> triggered = [] \<rparr>)) ''critical'' = 0
   \<and> by_severity (getStats (\<lambda>k. ''function'') (\<lambda>i. 100000000)
       \<lparr> alerts = [\<lparr> enabled = True, severity = ''info'' \<rparr>], total_field = 1 \<rparr>
       \<lparr> triggered = [] \<rparr>) ''info'' = Some (Count 1)
   \<and> length (alerts \<lparr> alerts = [\<lparr> enabled = True, severity = ''info'' \<rparr>], total_field = 1 \<rparr>) = 1"
  by (simp add: getStats_def bump_severity_def severity_zero_def count_at_def
      inherited_functions_def)

section \<open>Properties of the toggles\<close>

text \<open>
  C2. For an existing alert with a boolean \<open>enabled\<close> flag, in the table of any category,
  a toggle flips only that flag: the manual toggle of \<open>alertsAPI\<close> (a GET followed by a PUT
  whose body names \<open>enabled\<close> alone, which the backend accepts) and the PATCH toggle of
  \<open>unifiedAlertsAPI\<close> both return and store the alert with \<open>enabled\<close> negated; every
  other field of the alert (name, description, quality_type, severity, detection
  parameters, trigger_count, last_triggered_at, created_at) and every other alert is
  unchanged.
\<close>

theorem toggle_flips_only_enabled:
  assumes "tbl alertId = Some a"
    and "a ''enabled'' = Some (JBool b)"
    and "accepts [(''enabled'', JBool (\<not> b))]"
  shows "alertsAPI_toggle accepts tbl alertId
           = (Inr (a(''enabled'' \<mapsto> JBool (\<not> b))),
              tbl(alertId \<mapsto> a(''enabled'' \<mapsto> JBool (\<not> b))))
       \<and> unifiedAlertsAPI_toggle tbl alertId
           = (Inr (a(''enabled'' \<mapsto> JBool (\<not> b))),
              tbl(alertId \<mapsto> a(''enabled'' \<mapsto> JBool (\<not> b))))
       \<and> (a(''enabled'' \<mapsto> JBool (\<not> b))) ''enabled'' = Some (JBool (\<not> b))
       \<and> (\<forall>field. field \<noteq> ''enabled'' \<longrightarrow>
             (a(''enabled'' \<mapsto> JBool (\<not> b))) field = a field)
       \<and> (\<forall>other. other \<noteq> alertId \<longrightarrow>
             (tbl(alertId \<mapsto> a(''enabled'' \<mapsto> JBool (\<not> b)))) other = tbl other)"
proof -
  have neg: "js_not (property a ''enabled'') = (\<not> b)"
    using assms(2) by (simp add: property_def js_not_def)
  have merge: "a ++ map_of [(''enabled'', JBool (\<not> b))] = a(''enabled'' \<mapsto> JBool (\<not> b))"
    by (simp add: map_add_def fun_eq_iff)
  have manual: "alertsAPI_toggle accepts tbl alertId
      = (Inr (a(''enabled'' \<mapsto> JBool (\<not> b))),
         tbl(alertId \<mapsto> a(''enabled'' \<mapsto> JBool (\<not> b))))"
    using assms(1,3) neg merge
    by (simp add: alertsAPI_toggle_def backend_get_def backend_update_def)
  have patch: "unifiedAlertsAPI_toggle tbl alertId
      = (Inr (a(''enabled'' \<mapsto> JBool (\<not> b))),
         tbl(alertId \<mapsto> a(''enabled'' \<mapsto> JBool (\<not> b))))"
    using assms(1,2) by (simp add: unifiedAlertsAPI_toggle_def backend_toggle_def enabled_flag_def)
  show ?thesis
    using manual patch by simp
qed

theorem toggle_flips_only_enabled_witness:
  "alertsAPI_toggle (\<lambda>body. True)
      [7 \<mapsto> [''severity'' \<mapsto> JStr ''high'', ''enabled'' \<mapsto> JBool True]] 7
     = (Inr ([''severity'' \<mapsto> JStr ''high'', ''enabled'' \<mapsto> JBool True]
               (''enabled'' \<mapsto> JBool False)),
        [7 \<mapsto> [''severity'' \<mapsto> JStr ''high'', ''enabled'' \<mapsto> JBool True]]
          (7 \<mapsto> [''severity'' \<mapsto> JStr ''high'', ''enabled'' \<mapsto> JBool True]
                   (''enabled'' \<mapsto> JBool False)))
   \<and> unifiedAlertsAPI_toggle
      [7 \<mapsto> [''severity'' \<mapsto> JStr ''high'', ''enabled'' \<mapsto> JBool True]] 7
     = (Inr ([''severity'' \<mapsto> JStr ''high'', ''enabled'' \<mapsto> JBool True]
               (''enabled'' \<mapsto> JBool False)),
        [7 \<mapsto> [''severity'' \<mapsto> JStr ''high'', ''enabled'' \<mapsto> JBool True]]
          (7 \<mapsto> [''severity'' \<mapsto> JStr ''high'', ''enabled'' \<mapsto> JBool True]
                   (''enabled'' \<mapsto> JBool False)))"
proof -
  let ?a = "[''severity'' \<mapsto> JStr ''high'', ''enabled'' \<mapsto> JBool True]"
  have stored: "[7 \<mapsto> ?a] (7::nat) = Some ?a"
    and flag: "?a ''enabled'' = Some (JBool True)"
    and accepted: "(\<lambda>body. True) [(''enabled'', JBool (\<not> True))]"
    by simp_all
  have flip: "JBool (\<not> True) = JBool False"
    by simp
  from toggle_flips_only_enabled[where tbl = "[7 \<mapsto> ?a]" and alertId = 7 and a = ?a
      and b = True and accepts = "\<lambda>body. True", OF stored flag accepted]
  show ?thesis
    unfolding flip by blast
qed

end
